theory Spec2Isabelle
  imports Complex_Main
begin

section \<open>JavaScript values and the built-ins the service relies on\<close>

text \<open>
  The service handles untyped data: query conditions carry values of type \<open>unknown\<close>, and
  every answer of the database client is probed at run time (\<open>typeof\<close>, \<open>in\<close>,
  \<open>Array.isArray\<close>). The model therefore works on a datatype of JavaScript values.
  Numbers are the integers (no fractions, no NaN among the values), strings are Isabelle
  strings (code units below 256), and an object is the list of its own enumerable
  properties in the engine's enumeration order, with pairwise distinct keys.
\<close>

datatype jsval =
    JUndefined
  | JNull
  | JBool bool
  | JNum int
  | JStr string
  | JArr "jsval list"
  | JObj "(string \<times> jsval) list"


text \<open>Truthiness, as \<open>if (x)\<close>, \<open>!x\<close>, \<open>x || y\<close> and \<open>x ? a : b\<close> read it.\<close>

fun truthy :: "jsval \<Rightarrow> bool" where
  "truthy JUndefined = False"
| "truthy JNull = False"
| "truthy (JBool b) = b"
| "truthy (JNum n) = (n \<noteq> 0)"
| "truthy (JStr s) = (s \<noteq> [])"
| "truthy (JArr xs) = True"
| "truthy (JObj kvs) = True"

text \<open>\<open>typeof x === 'object'\<close>: objects, arrays and \<open>null\<close>.\<close>

fun typeof_object :: "jsval \<Rightarrow> bool" where
  "typeof_object JNull = True"
| "typeof_object (JArr xs) = True"
| "typeof_object (JObj kvs) = True"
| "typeof_object v = False"

fun isArray :: "jsval \<Rightarrow> bool" where
  "isArray (JArr xs) = True"
| "isArray v = False"

text \<open>
  \<open>k in x\<close> and \<open>x.k\<close> for a property name \<open>k\<close> that is neither an index nor
  \<open>length\<close> (the names the service uses: \<open>result\<close>, \<open>status\<close>, \<open>id\<close>, \<open>tb\<close>,
  \<open>count\<close>). An array or a primitive has no such property. The callers guard \<open>in\<close> by
  \<open>typeof x === 'object'\<close> and a null test, as the source does.
\<close>

fun has_prop :: "string \<Rightarrow> jsval \<Rightarrow> bool" where
  "has_prop k (JObj kvs) = (k \<in> set (map fst kvs))"
| "has_prop k v = False"

fun get_prop :: "jsval \<Rightarrow> string \<Rightarrow> jsval" where
  "get_prop (JObj kvs) k = (case map_of kvs k of Some v \<Rightarrow> v | None \<Rightarrow> JUndefined)"
| "get_prop v k = JUndefined"

text \<open>\<open>o.k = v\<close> on an object: an existing property keeps its place, a new one is appended.\<close>

fun put_prop :: "(string \<times> 'v) list \<Rightarrow> string \<Rightarrow> 'v \<Rightarrow> (string \<times> 'v) list" where
  "put_prop [] k v = [(k, v)]"
| "put_prop ((k', v') # kvs) k v =
     (if k' = k then (k, v) # kvs else (k', v') # put_prop kvs k v)"

text \<open>\<open>xs[0]\<close> on a list that came out of \<open>Array.isArray(r) ? r : [r]\<close>.\<close>

fun first_elem :: "jsval list \<Rightarrow> jsval" where
  "first_elem [] = JUndefined"
| "first_elem (x # xs) = x"

text \<open>
  \<open>x[0]\<close> on a value that is not null or undefined (the callers see to that): the first
  element of an array, the first character of a string, the property \<open>0\<close> of an object.
\<close>

fun index0 :: "jsval \<Rightarrow> jsval" where
  "index0 (JArr xs) = first_elem xs"
| "index0 (JStr s) = (case s of [] \<Rightarrow> JUndefined | c # cs \<Rightarrow> JStr [c])"
| "index0 (JObj kvs) = get_prop (JObj kvs) ''0''"
| "index0 v = JUndefined"

text \<open>\<open>x.length\<close> on a value that is not null or undefined.\<close>

fun js_length :: "jsval \<Rightarrow> jsval" where
  "js_length (JArr xs) = JNum (int (length xs))"
| "js_length (JStr s) = JNum (int (length s))"
| "js_length (JObj kvs) = get_prop (JObj kvs) ''length''"
| "js_length v = JUndefined"

subsection \<open>Numbers and strings\<close>

definition digit_char :: "nat \<Rightarrow> char" where
  "digit_char d = ''0123456789'' ! d"

function string_of_nat :: "nat \<Rightarrow> string" where
  "string_of_nat n =
     (if n < 10 then [digit_char n] else string_of_nat (n div 10) @ [digit_char (n mod 10)])"
  by pat_completeness auto
termination
  by (relation "measure id") auto

declare string_of_nat.simps [simp del]

text \<open>Number to string, for integers below \<open>10^21\<close> in absolute value.\<close>

definition string_of_int :: "int \<Rightarrow> string" where
  "string_of_int i = (if i < 0 then CHR ''-'' # string_of_nat (nat (- i)) else string_of_nat (nat i))"

text \<open>\<open>Array.prototype.join\<close> on strings.\<close>

fun join :: "string \<Rightarrow> string list \<Rightarrow> string" where
  "join sep [] = []"
| "join sep [x] = x"
| "join sep (x # y # ys) = x @ sep @ join sep (y # ys)"

text \<open>
  \<open>String(x)\<close>, which is also what a template literal applies to \<open>${x}\<close>. An array joins
  its elements with a comma, null and undefined elements giving the empty string; a plain
  object gives \<open>[object Object]\<close>.
\<close>

fun js_String :: "jsval \<Rightarrow> string" where
  "js_String JUndefined = ''undefined''"
| "js_String JNull = ''null''"
| "js_String (JBool b) = (if b then ''true'' else ''false'')"
| "js_String (JNum n) = string_of_int n"
| "js_String (JStr s) = s"
| "js_String (JArr xs) =
     join '','' (map (\<lambda>x. if x = JUndefined \<or> x = JNull then [] else js_String x) xs)"
| "js_String (JObj kvs) = ''[object Object]''"

text \<open>\<open>s.startsWith(c)\<close>, \<open>s.endsWith(c)\<close> and \<open>s.includes(c)\<close> for a one-character \<open>c\<close>.\<close>

fun startsWith :: "string \<Rightarrow> char \<Rightarrow> bool" where
  "startsWith [] c = False"
| "startsWith (x # xs) c = (x = c)"

definition endsWith :: "string \<Rightarrow> char \<Rightarrow> bool" where
  "endsWith s c = startsWith (rev s) c"

definition str_includes :: "string \<Rightarrow> char \<Rightarrow> bool" where
  "str_includes s c = (c \<in> set s)"

text \<open>
  \<open>s.slice(start, end)\<close>: a negative index counts from the end, both are clamped to the
  string, and an empty range gives the empty string.
\<close>

definition clamp_index :: "nat \<Rightarrow> int \<Rightarrow> nat" where
  "clamp_index len i = (if i < 0 then nat (max (int len + i) 0) else min (nat i) len)"

definition slice :: "string \<Rightarrow> int \<Rightarrow> int \<Rightarrow> string" where
  "slice s start fin =
     (let from = clamp_index (length s) start; to = clamp_index (length s) fin
      in take (to - from) (drop from s))"

text \<open>\<open>s.slice(start)\<close>: the end defaults to the length.\<close>

definition slice_from :: "string \<Rightarrow> int \<Rightarrow> string" where
  "slice_from s start = slice s start (int (length s))"

subsection \<open>JSON.stringify\<close>

definition hex_char :: "nat \<Rightarrow> char" where
  "hex_char d = ''0123456789abcdef'' ! d"

text \<open>
  One character of a quoted JSON string: the quote and the backslash are escaped, the
  control characters get their short escape or \<open>\u00XX\<close>.
\<close>

definition json_escape :: "char \<Rightarrow> string" where
  "json_escape c =
     (let n = (of_char c :: nat) in
      if n = 34 then [CHR 0x5C, CHR 0x22]
      else if n = 92 then [CHR 0x5C, CHR 0x5C]
      else if n = 8 then [CHR 0x5C, CHR ''b'']
      else if n = 9 then [CHR 0x5C, CHR ''t'']
      else if n = 10 then [CHR 0x5C, CHR ''n'']
      else if n = 12 then [CHR 0x5C, CHR ''f'']
      else if n = 13 then [CHR 0x5C, CHR ''r'']
      else if n < 32 then [CHR 0x5C, CHR ''u'', CHR ''0'', CHR ''0'', hex_char (n div 16), hex_char (n mod 16)]
      else [c])"

definition json_quote :: "string \<Rightarrow> string" where
  "json_quote s = [CHR 0x22] @ concat (map json_escape s) @ [CHR 0x22]"

text \<open>
  \<open>JSON.stringify(x)\<close>; \<open>None\<close> is the result \<open>undefined\<close>. Inside an array an
  undefined element prints as \<open>null\<close>; inside an object a property with an undefined
  value is left out.
\<close>

fun JSON_stringify :: "jsval \<Rightarrow> string option" where
  "JSON_stringify JUndefined = None"
| "JSON_stringify JNull = Some ''null''"
| "JSON_stringify (JBool b) = Some (if b then ''true'' else ''false'')"
| "JSON_stringify (JNum n) = Some (string_of_int n)"
| "JSON_stringify (JStr s) = Some (json_quote s)"
| "JSON_stringify (JArr xs) =
     Some (''['' @ join '','' (map (\<lambda>x. case JSON_stringify x of None \<Rightarrow> ''null'' | Some t \<Rightarrow> t) xs) @ '']'')"
| "JSON_stringify (JObj kvs) =
     Some (''{'' @ join '',''
        (concat (map (\<lambda>kv. case JSON_stringify (snd kv) of
                               None \<Rightarrow> []
                             | Some t \<Rightarrow> [json_quote (fst kv) @ '':'' @ t]) kvs)) @ ''}'')"

text \<open>A value of type \<open>string | undefined\<close> inside a template literal.\<close>

fun interp :: "string option \<Rightarrow> string" where
  "interp None = ''undefined''"
| "interp (Some s) = s"

text \<open>The same value as an element of \<open>Array.prototype.join\<close>: undefined joins as empty.\<close>

fun join_elem :: "string option \<Rightarrow> string" where
  "join_elem None = []"
| "join_elem (Some s) = s"

section \<open>Query conditions and the WHERE clause\<close>

datatype QueryOperator = Eq | Ne | Gt | Ge | Lt | Le | LIKE | IN | NOT_IN

fun operator_text :: "QueryOperator \<Rightarrow> string" where
  "operator_text Eq = ''=''"
| "operator_text Ne = ''!=''"
| "operator_text Gt = ''>''"
| "operator_text Ge = ''>=''"
| "operator_text Lt = ''<''"
| "operator_text Le = ''<=''"
| "operator_text LIKE = ''LIKE''"
| "operator_text IN = ''IN''"
| "operator_text NOT_IN = ''NOT IN''"

record QueryCondition =
  field :: string
  operator :: "QueryOperator option"
  val :: jsval

text \<open>
  The argument type \<open>Partial<T> | QueryCondition[]\<close>: an object of field values, or an
  array of condition triples.
\<close>

datatype conditions =
    FieldEquals "(string \<times> jsval) list"
  | ConditionList "QueryCondition list"

text \<open>The body of the \<open>map\<close> callback of \<open>buildWhereClause\<close>: one triple.\<close>

definition render_condition :: "QueryCondition \<Rightarrow> string" where
  "render_condition cond =
     (let fld = field cond;
          op = (case operator cond of Some p \<Rightarrow> p | None \<Rightarrow> Eq)
      in
      if op = IN \<or> op = NOT_IN then
        (let values = (case val cond of JArr xs \<Rightarrow> xs | v \<Rightarrow> [v]);
             value = ''['' @ join '', '' (map (\<lambda>v. join_elem (JSON_stringify v)) values) @ '']''
         in fld @ '' '' @ operator_text op @ '' '' @ value)
      else if op = LIKE then
        (let pattern = js_String (val cond) in
         if startsWith pattern CHR ''%'' \<and> endsWith pattern CHR ''%'' then
           ''string::contains('' @ fld @ '', '' @ interp (JSON_stringify (JStr (slice pattern 1 (- 1)))) @ '')''
         else if startsWith pattern CHR ''%'' then
           ''string::ends_with('' @ fld @ '', '' @ interp (JSON_stringify (JStr (slice_from pattern 1))) @ '')''
         else if endsWith pattern CHR ''%'' then
           ''string::starts_with('' @ fld @ '', '' @ interp (JSON_stringify (JStr (slice pattern 0 (- 1)))) @ '')''
         else
           fld @ '' = '' @ interp (JSON_stringify (val cond)))
      else
        fld @ '' '' @ operator_text op @ '' '' @ interp (JSON_stringify (val cond)))"

fun buildWhereClause :: "conditions \<Rightarrow> string" where
  "buildWhereClause (ConditionList conds) = join '' AND '' (map render_condition conds)"
| "buildWhereClause (FieldEquals kvs) =
     join '' AND '' (map (\<lambda>kv. fst kv @ '' = '' @ interp (JSON_stringify (snd kv))) kvs)"

section \<open>Errors, the console and the database client\<close>

text \<open>
  Every \<open>throw\<close> of the source and every rejected promise is a value of this type. The
  messages of the source are not ASCII; each constructor stands for one message and keeps the
  text the source interpolates into it.
\<close>

datatype js_error =
    NotInitialized            \<comment> \<open>getSurrealDB: the connection was not initialised\<close>
  | CreateNoResult            \<comment> \<open>add/create: the store returned no record\<close>
  | InvalidId string          \<comment> \<open>update: the id is falsy; carries the interpolated id\<close>
  | RecordNotFound string     \<comment> \<open>update: no record after the update; carries recordId\<close>
  | NoIdToUpdate              \<comment> \<open>BaseModel.update: the instance has no id\<close>
  | TypeError                 \<comment> \<open>raised by the engine (calling what is not a function, reading a property of null)\<close>
  | Rejected jsval            \<comment> \<open>a rejection of the database client, with its reason\<close>

text \<open>One constructor for each \<open>console.error\<close> call of the source.\<close>

datatype log_entry =
    LogConnectFailed js_error
  | LogInitFailed js_error
  | LogInvalidId string
  | LogAddFailed string js_error
  | LogAddManyFailed string js_error
  | LogFindByIdFailed string string js_error
  | LogQueryError string
  | LogFindByFailed string js_error
  | LogUpdateFailed string string js_error
  | LogUpdateByFailed string js_error
  | LogUpsertFailed string string js_error
  | LogDeleteFailed string string js_error
  | LogDeleteManyFailed string js_error
  | LogCountFailed string js_error
  | LogPaginateFailed string js_error

text \<open>
  The database client is an external library. It is a parameter of the model: each of its
  methods maps the arguments and the state of the remote store to a resolved value or a
  rejection (\<open>Inl\<close>) and the store's next state. \<open>query\<close> has the declared result type
  \<open>unknown[]\<close>; the other methods are cast by the source to \<open>T | T[]\<close> and are probed at
  run time, so they return any value.
\<close>

record 's client =
  client_query :: "string \<Rightarrow> 's \<Rightarrow> (js_error + jsval list) \<times> 's"
  client_create :: "string \<Rightarrow> jsval \<Rightarrow> 's \<Rightarrow> (js_error + jsval) \<times> 's"
  client_select :: "string \<Rightarrow> 's \<Rightarrow> (js_error + jsval) \<times> 's"
  client_update :: "string \<Rightarrow> jsval \<Rightarrow> 's \<Rightarrow> (js_error + jsval) \<times> 's"
  client_delete :: "string \<Rightarrow> 's \<Rightarrow> (js_error + jsval) \<times> 's"

datatype request =
    Query string
  | Create string jsval
  | Select string
  | Update string jsval
  | Delete string

text \<open>
  What a run of the service can change or show: the state of the remote store, the requests
  sent to it so far (in the order they were issued) and the lines written to the console.
\<close>

record 's world =
  store :: 's
  requests :: "request list"
  console :: "log_entry list"

type_synonym ('s, 'a) async = "'s world \<Rightarrow> (js_error + 'a) \<times> 's world"

definition console_error :: "log_entry \<Rightarrow> 's world \<Rightarrow> 's world" where
  "console_error m w = w\<lparr>console := console w @ [m]\<rparr>"

text \<open>Issuing one request: it is recorded, and the client decides its outcome.\<close>

definition send :: "request \<Rightarrow> ('s \<Rightarrow> (js_error + 'a) \<times> 's) \<Rightarrow> ('s, 'a) async" where
  "send rq f w =
     (case f (store w) of (r, s') \<Rightarrow> (r, w\<lparr>store := s', requests := requests w @ [rq]\<rparr>))"

text \<open>\<open>const v = await p; rest\<close>: a rejection skips the rest.\<close>

definition await :: "(js_error + 'a) \<times> 's world \<Rightarrow> ('a \<Rightarrow> ('s, 'b) async) \<Rightarrow> (js_error + 'b) \<times> 's world" where
  "await r k = (case r of (Inl e, w) \<Rightarrow> (Inl e, w) | (Inr v, w) \<Rightarrow> k v w)"

text \<open>\<open>try { body } catch (error) { console.error(..., error); throw error }\<close>\<close>

definition catch_rethrow :: "(js_error \<Rightarrow> log_entry) \<Rightarrow> (js_error + 'a) \<times> 's world \<Rightarrow> (js_error + 'a) \<times> 's world" where
  "catch_rethrow msg r =
     (case r of (Inl e, w) \<Rightarrow> (Inl e, console_error (msg e) w) | (Inr v, w) \<Rightarrow> (Inr v, w))"

text \<open>\<open>try { body } catch (error) { console.error(..., error); return d }\<close>\<close>

definition catch_return :: "(js_error \<Rightarrow> log_entry) \<Rightarrow> 'a \<Rightarrow> (js_error + 'a) \<times> 's world \<Rightarrow> (js_error + 'a) \<times> 's world" where
  "catch_return msg d r =
     (case r of (Inl e, w) \<Rightarrow> (Inr d, console_error (msg e) w) | (Inr v, w) \<Rightarrow> (Inr v, w))"

text \<open>
  \<open>Promise.all\<close> over calls of async functions. Each call runs up to its first request when
  the argument array is built, so the requests go out in the order of the array, whatever
  the outcome of the others; the model runs the calls in that order on the one store. The
  result is the array of the values, or a rejection when a member rejects (the model takes
  the first in the order of the array; the engine takes the first in time).
\<close>

fun Promise_all :: "('s, 'a) async list \<Rightarrow> ('s, 'a list) async" where
  "Promise_all [] w = (Inr [], w)"
| "Promise_all (p # ps) w =
     (case p w of (r, w1) \<Rightarrow>
        (case Promise_all ps w1 of (rs, w2) \<Rightarrow>
           ((case r of Inl e \<Rightarrow> Inl e
             | Inr v \<Rightarrow> (case rs of Inl e \<Rightarrow> Inl e | Inr vs \<Rightarrow> Inr (v # vs))), w2)))"


section \<open>The connection manager\<close>

record DbConfig =
  url :: string
  namespace :: string
  database :: string
  username :: string
  password :: string

definition DEFAULT_CONFIG :: DbConfig where
  "DEFAULT_CONFIG =
     \<lparr>url = ''ws://localhost:8000/rpc'', namespace = ''test'', database = ''test'',
      username = ''root'', password = ''root''\<rparr>"

text \<open>
  What the network does is a parameter. An attempt to connect (\<open>db.connect\<close>, then
  \<open>db.use\<close>) either yields a live handle or is rejected; in the second case \<open>getDb\<close>
  closes the unconnected client, and that \<open>close\<close> may itself be rejected. Closing a live
  handle resolves or is rejected.
\<close>

datatype 'h attempt =
    Connected 'h
  | Refused js_error "js_error option"

record 'h network =
  connecting :: "DbConfig \<Rightarrow> nat \<Rightarrow> 'h attempt"
  closing :: "'h \<Rightarrow> js_error option"

text \<open>
  The module's state: the variable \<open>dbInstance\<close>, and for the proofs the number of
  connection attempts made, the handles closed and the console.
\<close>

record 'h module_state =
  dbInstance :: "'h option"
  attempts :: nat
  closed :: "'h list"
  messages :: "log_entry list"

definition initial_state :: "'h module_state" where
  "initial_state = \<lparr>dbInstance = None, attempts = 0, closed = [], messages = []\<rparr>"

definition getDb :: "'h network \<Rightarrow> DbConfig \<Rightarrow> 'h module_state \<Rightarrow> (js_error + 'h) \<times> 'h module_state" where
  "getDb net config st =
     (let st1 = st\<lparr>attempts := Suc (attempts st)\<rparr> in
      case connecting net config (attempts st) of
        Connected h \<Rightarrow> (Inr h, st1)
      | Refused err close_err \<Rightarrow>
          (let st2 = st1\<lparr>messages := messages st1 @ [LogConnectFailed err]\<rparr> in
           case close_err of
             Some e \<Rightarrow> (Inl e, st2)
           | None \<Rightarrow> (Inl err, st2)))"

definition initSurrealDB :: "'h network \<Rightarrow> 'h module_state \<Rightarrow> (js_error + 'h) \<times> 'h module_state" where
  "initSurrealDB net st =
     (case dbInstance st of
        Some h \<Rightarrow> (Inr h, st)
      | None \<Rightarrow>
          (case getDb net DEFAULT_CONFIG st of
             (Inr h, st1) \<Rightarrow> (Inr h, st1\<lparr>dbInstance := Some h\<rparr>)
           | (Inl error, st1) \<Rightarrow>
               (Inl error, st1\<lparr>messages := messages st1 @ [LogInitFailed error], dbInstance := None\<rparr>)))"

definition isSurrealDBInitialized :: "'h module_state \<Rightarrow> bool" where
  "isSurrealDBInitialized st = (dbInstance st \<noteq> None)"

definition getSurrealDB :: "'h module_state \<Rightarrow> js_error + 'h" where
  "getSurrealDB st = (case dbInstance st of None \<Rightarrow> Inl NotInitialized | Some h \<Rightarrow> Inr h)"

definition closeSurrealDB :: "'h network \<Rightarrow> 'h module_state \<Rightarrow> (js_error + unit) \<times> 'h module_state" where
  "closeSurrealDB net st =
     (case dbInstance st of
        Some h \<Rightarrow>
          (case closing net h of
             Some e \<Rightarrow> (Inl e, st)
           | None \<Rightarrow> (Inr (), st\<lparr>closed := closed st @ [h], dbInstance := None\<rparr>))
      | None \<Rightarrow> (Inr (), st))"

text \<open>
  A client of the module calls the three functions in any order. \<open>run\<close> executes a
  sequence of calls and returns what each call answered, with the state at the end.
\<close>

datatype call = CallInit | CallGet | CallClose

datatype 'h answer =
    InitOk 'h | InitFailed js_error
  | GetOk 'h | GetFailed js_error
  | CloseOk | CloseFailed js_error

definition step :: "'h network \<Rightarrow> call \<Rightarrow> 'h module_state \<Rightarrow> 'h answer \<times> 'h module_state" where
  "step net c st =
     (case c of
        CallInit \<Rightarrow> (case initSurrealDB net st of (Inr h, st1) \<Rightarrow> (InitOk h, st1) | (Inl e, st1) \<Rightarrow> (InitFailed e, st1))
      | CallGet \<Rightarrow> (case getSurrealDB st of Inr h \<Rightarrow> (GetOk h, st) | Inl e \<Rightarrow> (GetFailed e, st))
      | CallClose \<Rightarrow> (case closeSurrealDB net st of (Inr u, st1) \<Rightarrow> (CloseOk, st1) | (Inl e, st1) \<Rightarrow> (CloseFailed e, st1)))"

fun run :: "'h network \<Rightarrow> call list \<Rightarrow> 'h module_state \<Rightarrow> 'h answer list \<times> 'h module_state" where
  "run net [] st = ([], st)"
| "run net (c # cs) st =
     (case step net c st of (a, st1) \<Rightarrow> (case run net cs st1 of (as, st2) \<Rightarrow> (a # as, st2)))"

section \<open>The record service of \<open>src/models/db/surreal.ts\<close>\<close>

text \<open>
  An instance holds the handle it got from \<open>getSurrealDB\<close> when it was constructed, and
  the table name.
\<close>

record 's SurrealService =
  db :: "'s client"
  table :: string

definition new_SurrealService :: "'s client module_state \<Rightarrow> string \<Rightarrow> js_error + 's SurrealService" where
  "new_SurrealService st tbl =
     (case getSurrealDB st of Inl e \<Rightarrow> Inl e | Inr h \<Rightarrow> Inr \<lparr>db = h, table = tbl\<rparr>)"

text \<open>\<open>Object.entries(data).map(([key, value]) => `${key} = ${JSON.stringify(value)}`)\<close>\<close>

definition assignments :: "(string \<times> jsval) list \<Rightarrow> string list" where
  "assignments kvs = map (\<lambda>kv. fst kv @ '' = '' @ interp (JSON_stringify (snd kv))) kvs"

text \<open>\<open>idStr.includes(':') ? idStr : `${this.table}:${idStr}`\<close>\<close>

definition recordId_of :: "string \<Rightarrow> string \<Rightarrow> string" where
  "recordId_of tbl idStr = (if str_includes idStr CHR '':'' then idStr else tbl @ '':'' @ idStr)"

text \<open>\<open>(x as unknown[]) || []\<close>\<close>

definition or_empty :: "jsval \<Rightarrow> jsval" where
  "or_empty x = (if truthy x then x else JArr [])"


definition formatRecord :: "jsval \<Rightarrow> jsval" where
  "formatRecord record =
     (if truthy record \<and> typeof_object record \<and> has_prop ''id'' record then
        (case record of
           JObj r \<Rightarrow>
             (let rid = get_prop (JObj r) ''id'' in
              if typeof_object rid \<and> rid \<noteq> JNull \<and> has_prop ''id'' rid \<and> has_prop ''tb'' rid then
                JObj (put_prop r ''id''
                  (JStr (js_String (get_prop rid ''tb'') @ '':'' @ js_String (get_prop rid ''id''))))
              else
                JObj (put_prop r ''id'' (JStr (js_String rid))))
         | v \<Rightarrow> v)
      else record)"

definition add :: "'s SurrealService \<Rightarrow> jsval \<Rightarrow> ('s, jsval) async" where
  "add this d w =
     catch_rethrow (LogAddFailed (table this))
       (await (send (Create (table this) d) (client_create (db this) (table this) d) w)
          (\<lambda>result w1.
             let records = (case result of JArr xs \<Rightarrow> xs | v \<Rightarrow> [v]) in
             if \<not> truthy (first_elem records) then (Inl CreateNoResult, w1)
             else (Inr (formatRecord (first_elem records)), w1)))"

definition addMany :: "'s SurrealService \<Rightarrow> jsval list \<Rightarrow> ('s, jsval list) async" where
  "addMany this dataArray w =
     catch_rethrow (LogAddManyFailed (table this))
       (Promise_all (map (\<lambda>d. add this d) dataArray) w)"

text \<open>The result \<open>T | null\<close> is a value; \<open>JNull\<close> is the absent record.\<close>

definition findById :: "'s SurrealService \<Rightarrow> jsval \<Rightarrow> ('s, jsval) async" where
  "findById this ident w =
     catch_return (LogFindByIdFailed (table this) (js_String ident)) JNull
       (if \<not> truthy ident then (Inr JNull, console_error (LogInvalidId (js_String ident)) w)
        else
          (let idStr = js_String ident;
               recordId = recordId_of (table this) idStr;
               query = ''SELECT * FROM '' @ recordId
           in await (send (Query query) (client_query (db this) query) w)
                (\<lambda>result w1.
                   let firstResult = first_elem result in
                   if truthy firstResult \<and> typeof_object firstResult then
                     (if has_prop ''result'' firstResult then
                        (let records = or_empty (get_prop firstResult ''result'') in
                         (Inr (if truthy (index0 records) then formatRecord (index0 records) else JNull), w1))
                      else if isArray firstResult then
                        (Inr (if truthy (index0 firstResult) then formatRecord (index0 firstResult) else JNull), w1)
                      else (Inr JNull, w1))
                   else (Inr JNull, w1))))"


definition update :: "'s SurrealService \<Rightarrow> jsval \<Rightarrow> (string \<times> jsval) list \<Rightarrow> ('s, jsval) async" where
  "update this ident d w =
     catch_rethrow (LogUpdateFailed (table this) (js_String ident))
       (if \<not> truthy ident then (Inl (InvalidId (js_String ident)), w)
        else
          (let idStr = js_String ident;
               recordId = recordId_of (table this) idStr;
               updateData = join '', '' (assignments d);
               query = ''UPDATE '' @ recordId @ '' SET '' @ updateData @ '' RETURN AFTER''
           in await (send (Query query) (client_query (db this) query) w)
                (\<lambda>result w1.
                   let firstResult = first_elem result in
                   if truthy firstResult \<and> typeof_object firstResult then
                     (if has_prop ''result'' firstResult then
                        (let records = or_empty (get_prop firstResult ''result'') in
                         if js_length records = JNum 0 then (Inl (RecordNotFound recordId), w1)
                         else (Inr (formatRecord (index0 records)), w1))
                      else if isArray firstResult then
                        (if js_length firstResult = JNum 0 then (Inl (RecordNotFound recordId), w1)
                         else (Inr (formatRecord (index0 firstResult)), w1))
                      else (Inl (RecordNotFound recordId), w1))
                   else (Inl (RecordNotFound recordId), w1))))"


definition upsert :: "'s SurrealService \<Rightarrow> jsval \<Rightarrow> (string \<times> jsval) list \<Rightarrow> ('s, jsval) async" where
  "upsert this ident d w =
     catch_rethrow (LogUpsertFailed (table this) (js_String ident))
       (await (findById this ident w)
          (\<lambda>existing w1.
             if truthy existing then update this ident d w1
             else add this (JObj d) w1))"

definition delete :: "'s SurrealService \<Rightarrow> jsval \<Rightarrow> ('s, bool) async" where
  "delete this ident w =
     catch_return (LogDeleteFailed (table this) (js_String ident)) False
       (if \<not> truthy ident then (Inr False, console_error (LogInvalidId (js_String ident)) w)
        else
          (let idStr = js_String ident;
               recordId = recordId_of (table this) idStr;
               query = ''DELETE '' @ recordId
           in await (send (Query query) (client_query (db this) query) w)
                (\<lambda>result w1. (Inr True, w1))))"

definition deleteMany :: "'s SurrealService \<Rightarrow> jsval list \<Rightarrow> ('s, bool) async" where
  "deleteMany this ids w =
     catch_return (LogDeleteManyFailed (table this)) False
       (await (Promise_all (map (\<lambda>ident. delete this ident) ids) w)
          (\<lambda>results w1. (Inr True, w1)))"











section \<open>The record service of \<open>src/utils/surreal.ts\<close>\<close>

text \<open>
  The second copy of the service (the one the boot file and the examples import) has the
  same connection manager and the same \<open>buildWhereClause\<close>. It calls the client's
  \<open>create\<close>, \<open>select\<close>, \<open>update\<close> and \<open>delete\<close> methods where the first copy sends
  statements, does not format records, and reads only answers that carry a \<open>result\<close>
  member. Its functions carry the suffix \<open>_utils\<close>.
\<close>

definition create_utils :: "'s SurrealService \<Rightarrow> jsval \<Rightarrow> ('s, jsval) async" where
  "create_utils this d w =
     catch_rethrow (LogAddFailed (table this))
       (await (send (Create (table this) d) (client_create (db this) (table this) d) w)
          (\<lambda>result w1.
             let records = (case result of JArr xs \<Rightarrow> xs | v \<Rightarrow> [v]) in
             if \<not> truthy (first_elem records) then (Inl CreateNoResult, w1)
             else (Inr (first_elem records), w1)))"

definition findById_utils :: "'s SurrealService \<Rightarrow> jsval \<Rightarrow> ('s, jsval) async" where
  "findById_utils this ident w =
     catch_return (LogFindByIdFailed (table this) (js_String ident)) JNull
       (if \<not> truthy ident then (Inr JNull, console_error (LogInvalidId (js_String ident)) w)
        else
          (let idStr = js_String ident;
               recordId = recordId_of (table this) idStr
           in await (send (Select recordId) (client_select (db this) recordId) w)
                (\<lambda>result w1.
                   let records = (case result of JArr xs \<Rightarrow> xs | v \<Rightarrow> [v]) in
                   (Inr (if truthy (first_elem records) then first_elem records else JNull), w1))))"


definition update_utils :: "'s SurrealService \<Rightarrow> jsval \<Rightarrow> (string \<times> jsval) list \<Rightarrow> ('s, jsval) async" where
  "update_utils this ident d w =
     catch_rethrow (LogUpdateFailed (table this) (js_String ident))
       (if \<not> truthy ident then (Inl (InvalidId (js_String ident)), w)
        else
          (let idStr = js_String ident;
               recordId = recordId_of (table this) idStr
           in await (send (Update recordId (JObj d)) (client_update (db this) recordId (JObj d)) w)
                (\<lambda>result w1.
                   let records = (case result of JArr xs \<Rightarrow> xs | v \<Rightarrow> [v]) in
                   if \<not> truthy (first_elem records) then (Inl (RecordNotFound recordId), w1)
                   else (Inr (first_elem records), w1))))"

definition upsert_utils :: "'s SurrealService \<Rightarrow> jsval \<Rightarrow> (string \<times> jsval) list \<Rightarrow> ('s, jsval) async" where
  "upsert_utils this ident d w =
     catch_rethrow (LogUpsertFailed (table this) (js_String ident))
       (await (findById_utils this ident w)
          (\<lambda>existing w1.
             if truthy existing then update_utils this ident d w1
             else create_utils this (JObj d) w1))"

definition delete_utils :: "'s SurrealService \<Rightarrow> jsval \<Rightarrow> ('s, bool) async" where
  "delete_utils this ident w =
     catch_return (LogDeleteFailed (table this) (js_String ident)) False
       (if \<not> truthy ident then (Inr False, console_error (LogInvalidId (js_String ident)) w)
        else
          (let idStr = js_String ident;
               recordId = recordId_of (table this) idStr
           in await (send (Delete recordId) (client_delete (db this) recordId) w)
                (\<lambda>result w1. (Inr True, w1))))"

definition deleteMany_utils :: "'s SurrealService \<Rightarrow> jsval list \<Rightarrow> ('s, bool) async" where
  "deleteMany_utils this ids w =
     catch_return (LogDeleteManyFailed (table this)) False
       (await (Promise_all (map (\<lambda>ident. delete_utils this ident) ids) w)
          (\<lambda>results w1. (Inr True, w1)))"




section \<open>The Active-Record base class of \<open>src/models/BaseModel.ts\<close>\<close>

text \<open>
  An instance is the list of its own enumerable properties, in the order of
  \<open>Object.keys\<close>. A property holds data or a function. The private property \<open>_service\<close> is
  kept apart, since it holds a service object or a plain value (\<open>null\<close> at first); it is an
  own property as well, so \<open>Object.keys\<close> lists it (where it stands among the keys
  makes no difference to \<open>toJSON\<close>, which skips it). \<open>table_name\<close> is what the
  subclass's getter \<open>_table\<close> returns.
\<close>

datatype field_value = Data jsval | Function

record 's BaseModel =
  table_name :: string
  service_field :: "jsval + 's SurrealService"
  own_props :: "(string \<times> field_value) list"

definition Object_keys :: "'s BaseModel \<Rightarrow> string list" where
  "Object_keys this = ''_service'' # map fst (own_props this)"

text \<open>\<open>typeof self[key] === 'function'\<close>\<close>

definition is_function :: "'s BaseModel \<Rightarrow> string \<Rightarrow> bool" where
  "is_function this key = (map_of (own_props this) key = Some Function)"

text \<open>\<open>self[key]\<close> for a key that holds data.\<close>

definition self_value :: "'s BaseModel \<Rightarrow> string \<Rightarrow> jsval" where
  "self_value this key = (case map_of (own_props this) key of Some (Data v) \<Rightarrow> v | _ \<Rightarrow> JUndefined)"

text \<open>\<open>this.id\<close>, declared \<open>id?: string\<close>.\<close>

definition this_id :: "'s BaseModel \<Rightarrow> jsval" where
  "this_id this = self_value this ''id''"

text \<open>The \<open>forEach\<close> of \<open>toJSON\<close>, as a fold over the keys with the object built so far.\<close>

definition toJSON_step :: "'s BaseModel \<Rightarrow> string \<Rightarrow> (string \<times> jsval) list \<Rightarrow> (string \<times> jsval) list" where
  "toJSON_step this key obj =
     (if (key = ''id'' \<or> \<not> startsWith key CHR ''_'') \<and> \<not> is_function this key
      then put_prop obj key (self_value this key)
      else obj)"

definition toJSON :: "'s BaseModel \<Rightarrow> (string \<times> jsval) list" where
  "toJSON this = fold (toJSON_step this) (Object_keys this) []"

text \<open>
  The getter \<open>service\<close>: a falsy \<open>_service\<close> is replaced by a new service, whose
  constructor asks the connection manager for the handle; the getter returns what
  \<open>_service\<close> then holds.
\<close>

definition service :: "'s client module_state \<Rightarrow> 's BaseModel \<Rightarrow> (js_error + (jsval + 's SurrealService)) \<times> 's BaseModel" where
  "service st this =
     (case service_field this of
        Inr svc \<Rightarrow> (Inr (Inr svc), this)
      | Inl v \<Rightarrow>
          (if \<not> truthy v then
             (case new_SurrealService st (table_name this) of
                Inl e \<Rightarrow> (Inl e, this)
              | Inr svc \<Rightarrow> (Inr (Inr svc), this\<lparr>service_field := Inr svc\<rparr>))
           else (Inr (Inl v), this)))"

text \<open>
  \<open>Object.assign(this, result)\<close> copies the own enumerable properties of \<open>result\<close> with
  assignments. An assignment to \<open>_service\<close> lands in that property; an assignment to a
  name that the class defines as a getter without a setter (\<open>_table\<close>, \<open>service\<close>,
  \<open>shortId\<close>) raises, the properties copied before staying.
\<close>

definition getter_only :: "string list" where
  "getter_only = [''_table'', ''service'', ''shortId'']"

fun assign_all :: "'s BaseModel \<Rightarrow> (string \<times> jsval) list \<Rightarrow> (js_error + unit) \<times> 's BaseModel" where
  "assign_all this [] = (Inr (), this)"
| "assign_all this ((k, v) # kvs) =
     (if k \<in> set getter_only then (Inl TypeError, this)
      else if k = ''_service'' then assign_all (this\<lparr>service_field := Inl v\<rparr>) kvs
      else assign_all (this\<lparr>own_props := put_prop (own_props this) k (Data v)\<rparr>) kvs)"

text \<open>The own enumerable properties of the source value of \<open>Object.assign\<close>.\<close>

fun own_entries :: "jsval \<Rightarrow> (string \<times> jsval) list" where
  "own_entries (JObj kvs) = kvs"
| "own_entries (JArr xs) = map (\<lambda>i. (string_of_nat i, xs ! i)) [0..<length xs]"
| "own_entries (JStr s) = map (\<lambda>i. (string_of_nat i, JStr [s ! i])) [0..<length s]"
| "own_entries v = []"

definition Object_assign :: "'s BaseModel \<Rightarrow> jsval \<Rightarrow> (js_error + unit) \<times> 's BaseModel" where
  "Object_assign this source = assign_all this (own_entries source)"

definition BaseModel_update :: "'s client module_state \<Rightarrow> 's BaseModel \<Rightarrow> 's world \<Rightarrow> (js_error + unit) \<times> 's BaseModel \<times> 's world" where
  "BaseModel_update st this w =
     (if \<not> truthy (this_id this) then (Inl NoIdToUpdate, this, w)
      else
        (let d = toJSON this in
         case service st this of
           (Inl e, this1) \<Rightarrow> (Inl e, this1, w)
         | (Inr (Inl v), this1) \<Rightarrow> (Inl TypeError, this1, w)
         | (Inr (Inr svc), this1) \<Rightarrow>
             (case update svc (this_id this1) d w of
                (Inl e, w1) \<Rightarrow> (Inl e, this1, w1)
              | (Inr result, w1) \<Rightarrow>
                  (case Object_assign this1 result of
                     (Inl e, this2) \<Rightarrow> (Inl e, this2, w1)
                   | (Inr u, this2) \<Rightarrow> (Inr (), this2, w1)))))"

section \<open>Definitions for the statements below\<close>

text \<open>
  The LIKE translation as it is described: the pattern is the condition's value as a
  string; a leading and a trailing \<open>%\<close> select the predicate, and the predicate's argument
  is the pattern without those markers.
\<close>

definition like_predicate :: "string \<Rightarrow> jsval \<Rightarrow> string" where
  "like_predicate fld v =
     (let pattern = js_String v;
          leading = (pattern \<noteq> [] \<and> hd pattern = CHR ''%'');
          trailing = (pattern \<noteq> [] \<and> last pattern = CHR ''%'')
      in if leading \<and> trailing then
           ''string::contains('' @ fld @ '', '' @ json_quote (butlast (tl pattern)) @ '')''
         else if leading then
           ''string::ends_with('' @ fld @ '', '' @ json_quote (tl pattern) @ '')''
         else if trailing then
           ''string::starts_with('' @ fld @ '', '' @ json_quote (butlast pattern) @ '')''
         else fld @ '' = '' @ (case JSON_stringify v of Some t \<Rightarrow> t | None \<Rightarrow> ''undefined''))"

text \<open>
  The history of a client of the connection manager is the list of answers it got. The
  connection is initialised by a history when some \<open>init\<close> in it succeeded and no
  \<open>close\<close> has succeeded since.
\<close>

fun is_InitOk :: "'h answer \<Rightarrow> bool" where
  "is_InitOk (InitOk h) = True"
| "is_InitOk a = False"

definition initialized_by :: "'h answer list \<Rightarrow> bool" where
  "initialized_by as =
     (\<exists>i \<in> {..<length as}. is_InitOk (as ! i) \<and>
        (\<forall>j \<in> {..<length as}. i < j \<longrightarrow> as ! j \<noteq> CloseOk))"

text \<open>
  A network for the examples: the first attempt to connect is refused, every later one
  yields a handle (numbered by the attempt); closing a handle succeeds.
\<close>

definition flaky_network :: "nat network" where
  "flaky_network =
     \<lparr>connecting = (\<lambda>config n. if n = 0 then Refused (Rejected (JStr ''refused'')) None else Connected n),
      closing = (\<lambda>h. None)\<rparr>"

text \<open>
  Stores for the examples. The first keeps rows by record id in memory: \<open>create\<close> assigns
  the id \<open>table:n\<close> and returns it in the composite form \<open>{tb, id}\<close>; a SELECT or DELETE
  statement for one record id is answered from the rows; a DELETE of a record that does
  not exist resolves with an empty result, as the database does. The second rejects every
  call. The third returns records that carry no \<open>id\<close> member.
\<close>

record memory =
  next_key :: nat
  rows :: "(string \<times> jsval) list"

definition memory_client :: "memory client" where
  "memory_client =
     \<lparr>client_query = (\<lambda>q m.
        if take 7 q = ''DELETE '' then
          (Inr [JArr []], m\<lparr>rows := filter (\<lambda>kv. fst kv \<noteq> drop 7 q) (rows m)\<rparr>)
        else if take 14 q = ''SELECT * FROM '' then
          (Inr [JArr (case map_of (rows m) (drop 14 q) of Some r \<Rightarrow> [r] | None \<Rightarrow> [])], m)
        else (Inr [JArr []], m)),
      client_create = (\<lambda>tbl d m.
        let key = string_of_nat (next_key m);
            row = JObj (put_prop (own_entries d) ''id'' (JObj [(''tb'', JStr tbl), (''id'', JStr key)]))
        in (Inr (JArr [row]), m\<lparr>next_key := Suc (next_key m), rows := rows m @ [(tbl @ '':'' @ key, row)]\<rparr>)),
      client_select = (\<lambda>rid m.
        (Inr (JArr (case map_of (rows m) rid of Some r \<Rightarrow> [r] | None \<Rightarrow> [])), m)),
      client_update = (\<lambda>rid d m.
        case map_of (rows m) rid of
          Some r \<Rightarrow>
            (let row = JObj (fold (\<lambda>kv acc. put_prop acc (fst kv) (snd kv)) (own_entries d) (own_entries r))
             in (Inr (JArr [row]), m\<lparr>rows := put_prop (rows m) rid row\<rparr>))
        | None \<Rightarrow> (Inr (JArr []), m)),
      client_delete = (\<lambda>rid m.
        (Inr (JArr []), m\<lparr>rows := filter (\<lambda>kv. fst kv \<noteq> rid) (rows m)\<rparr>))\<rparr>"

definition offline_client :: "unit client" where
  "offline_client =
     \<lparr>client_query = (\<lambda>q u. (Inl (Rejected (JStr ''offline'')), u)),
      client_create = (\<lambda>tbl d u. (Inl (Rejected (JStr ''offline'')), u)),
      client_select = (\<lambda>rid u. (Inl (Rejected (JStr ''offline'')), u)),
      client_update = (\<lambda>rid d u. (Inl (Rejected (JStr ''offline'')), u)),
      client_delete = (\<lambda>rid u. (Inl (Rejected (JStr ''offline'')), u))\<rparr>"

definition echo_client :: "unit client" where
  "echo_client =
     \<lparr>client_query = (\<lambda>q u. (Inr [JArr [JObj [(''name'', JStr ''Ann'')]]], u)),
      client_create = (\<lambda>tbl d u. (Inr d, u)),
      client_select = (\<lambda>rid u. (Inr (JArr []), u)),
      client_update = (\<lambda>rid d u. (Inr d, u)),
      client_delete = (\<lambda>rid u. (Inr (JArr []), u))\<rparr>"

definition user_service :: "memory SurrealService" where
  "user_service = \<lparr>db = memory_client, table = ''user''\<rparr>"

definition one_user :: "memory world" where
  "one_user =
     \<lparr>store = \<lparr>next_key = 2,
                rows = [(''user:1'', JObj [(''id'', JObj [(''tb'', JStr ''user''), (''id'', JStr ''1'')]),
                                          (''name'', JStr ''Ann'')])]\<rparr>,
      requests = [], console = []\<rparr>"

definition offline_service :: "unit SurrealService" where
  "offline_service = \<lparr>db = offline_client, table = ''user''\<rparr>"

definition echo_service :: "unit SurrealService" where
  "echo_service = \<lparr>db = echo_client, table = ''user''\<rparr>"

definition quiet :: "unit world" where
  "quiet = \<lparr>store = (), requests = [], console = []\<rparr>"

text \<open>The call resolved.\<close>

fun resolved :: "(js_error + 'a) \<times> 's \<Rightarrow> bool" where
  "resolved (Inr v, s) = True"
| "resolved (Inl e, s) = False"




text \<open>
  Two instances of a model class for the examples, and a module state in which the
  connection is initialised. The first instance was never saved and has no id; the second
  has one. Both carry a private field and a function-valued property.
\<close>

definition unsaved :: "unit BaseModel" where
  "unsaved =
     \<lparr>table_name = ''user'', service_field = Inl JNull,
      own_props = [(''id'', Data JUndefined), (''name'', Data (JStr ''Ann'')),
                   (''_draft'', Data (JBool True)), (''greet'', Function)]\<rparr>"

definition ann :: "unit BaseModel" where
  "ann =
     \<lparr>table_name = ''user'', service_field = Inl JNull,
      own_props = [(''id'', Data (JStr ''user:1'')), (''name'', Data (JStr ''Ann'')),
                   (''_draft'', Data (JBool True)), (''greet'', Function)]\<rparr>"

definition connected :: "unit client module_state" where
  "connected = \<lparr>dbInstance = Some echo_client, attempts = 1, closed = [], messages = []\<rparr>"

section \<open>The WHERE clause of a LIKE condition\<close>

lemma startsWith_iff: "startsWith s c \<longleftrightarrow> s \<noteq> [] \<and> hd s = c"
  by (cases s) auto

lemma endsWith_iff: "endsWith s c \<longleftrightarrow> s \<noteq> [] \<and> last s = c"
  by (cases s rule: rev_cases) (auto simp: endsWith_def)

lemma slice_inner: "slice s 1 (- 1) = butlast (tl s)"
  by (cases s) (auto simp: slice_def clamp_index_def Let_def butlast_conv_take drop_Suc)

lemma slice_tail: "slice_from s 1 = tl s"
  by (cases s) (auto simp: slice_from_def slice_def clamp_index_def Let_def)

lemma slice_front: "slice s 0 (- 1) = butlast s"
  by (cases s) (auto simp: slice_def clamp_index_def Let_def butlast_conv_take)

lemma interp_option: "interp x = (case x of Some t \<Rightarrow> t | None \<Rightarrow> ''undefined'')"
  by (cases x) auto

lemma render_condition_LIKE:
  "operator c = Some LIKE \<Longrightarrow> render_condition c = like_predicate (field c) (val c)"
  by (simp add: render_condition_def like_predicate_def Let_def startsWith_iff endsWith_iff
      slice_inner slice_tail slice_front interp_option)

text \<open>The four forms, by the shape of the pattern.\<close>

lemma like_predicate_contains:
  "js_String v = ''%'' @ s @ ''%'' \<Longrightarrow>
   like_predicate f v = ''string::contains('' @ f @ '', '' @ json_quote s @ '')''"
  by (simp add: like_predicate_def)

lemma like_predicate_ends_with:
  "js_String v = ''%'' @ s \<Longrightarrow> s \<noteq> [] \<Longrightarrow> last s \<noteq> CHR ''%'' \<Longrightarrow>
   like_predicate f v = ''string::ends_with('' @ f @ '', '' @ json_quote s @ '')''"
  by (simp add: like_predicate_def)

lemma like_predicate_starts_with:
  "js_String v = s @ ''%'' \<Longrightarrow> s \<noteq> [] \<Longrightarrow> hd s \<noteq> CHR ''%'' \<Longrightarrow>
   like_predicate f v = ''string::starts_with('' @ f @ '', '' @ json_quote s @ '')''"
  by (simp add: like_predicate_def)

lemma like_predicate_equality:
  "js_String v = s \<Longrightarrow> s = [] \<or> (hd s \<noteq> CHR ''%'' \<and> last s \<noteq> CHR ''%'') \<Longrightarrow>
   like_predicate f v = f @ '' = '' @ interp (JSON_stringify v)"
  by (auto simp: like_predicate_def interp_option)

text \<open>
  C1. In the clause built from a list of condition triples, every triple with the operator
  LIKE is rendered as the LIKE translation describes: a contains-predicate on the inner
  substring when the pattern starts and ends with \<open>%\<close>, an ends-with-predicate on the
  suffix when it only starts with \<open>%\<close>, a starts-with-predicate on the prefix when it only
  ends with \<open>%\<close>, and the equality \<open>field = <JSON of the value>\<close> otherwise. The triples
  are joined by AND in their order.
\<close>

theorem buildWhereClause_LIKE:
  "buildWhereClause (ConditionList conds) =
     join '' AND '' (map (\<lambda>c. if operator c = Some LIKE then like_predicate (field c) (val c)
                               else render_condition c) conds)"
proof -
  have "map render_condition conds =
        map (\<lambda>c. if operator c = Some LIKE then like_predicate (field c) (val c)
                  else render_condition c) conds"
    by (rule map_cong) (auto simp: render_condition_LIKE)
  then show ?thesis by (simp only: buildWhereClause.simps)
qed

theorem buildWhereClause_LIKE_witness:
  "buildWhereClause (ConditionList
      [\<lparr>field = ''email'', operator = Some LIKE, val = JStr ''%@x.com''\<rparr>,
       \<lparr>field = ''name'', operator = Some LIKE, val = JStr ''john%''\<rparr>,
       \<lparr>field = ''name'', operator = Some LIKE, val = JStr ''%an%''\<rparr>,
       \<lparr>field = ''name'', operator = Some LIKE, val = JStr ''exact''\<rparr>,
       \<lparr>field = ''name'', operator = Some LIKE, val = JStr ''%''\<rparr>])
   = ''string::ends_with(email, '' @ [CHR 0x22] @ ''@x.com'' @ [CHR 0x22] @ '') AND ''
     @ ''string::starts_with(name, '' @ [CHR 0x22] @ ''john'' @ [CHR 0x22] @ '') AND ''
     @ ''string::contains(name, '' @ [CHR 0x22] @ ''an'' @ [CHR 0x22] @ '') AND ''
     @ ''name = '' @ [CHR 0x22] @ ''exact'' @ [CHR 0x22] @ '' AND ''
     @ ''string::contains(name, '' @ [CHR 0x22] @ [CHR 0x22] @ '')''"
  using buildWhereClause_LIKE [of
      "[\<lparr>field = ''email'', operator = Some LIKE, val = JStr ''%@x.com''\<rparr>,
       \<lparr>field = ''name'', operator = Some LIKE, val = JStr ''john%''\<rparr>,
       \<lparr>field = ''name'', operator = Some LIKE, val = JStr ''%an%''\<rparr>,
       \<lparr>field = ''name'', operator = Some LIKE, val = JStr ''exact''\<rparr>,
       \<lparr>field = ''name'', operator = Some LIKE, val = JStr ''%''\<rparr>]"]
  by (simp add: like_predicate_def json_quote_def json_escape_def)

section \<open>The connection manager as a state machine\<close>

lemma run_snoc:
  "run net (cs @ [c]) st0 =
     (case run net cs st0 of (as, st1) \<Rightarrow> (case step net c st1 of (a, st2) \<Rightarrow> (as @ [a], st2)))"
  by (induction cs arbitrary: st0) (auto split: prod.splits)

lemma initialized_by_Nil: "\<not> initialized_by []"
  by (simp add: initialized_by_def)

lemma initialized_by_InitOk: "is_InitOk a \<Longrightarrow> initialized_by (as @ [a])"
  unfolding initialized_by_def by (rule bexI [of _ "length as"]) auto

lemma initialized_by_CloseOk: "\<not> initialized_by (as @ [CloseOk])"
proof
  assume "initialized_by (as @ [CloseOk])"
  then obtain i where i: "i < Suc (length as)" "is_InitOk ((as @ [CloseOk]) ! i)"
    and later: "\<forall>j \<in> {..<Suc (length as)}. i < j \<longrightarrow> (as @ [CloseOk]) ! j \<noteq> CloseOk"
    unfolding initialized_by_def by auto
  have "i \<noteq> length as" using i(2) by (auto simp: nth_append)
  with i(1) have "i < length as" by simp
  with later show False by (auto dest!: bspec [where x = "length as"])
qed

lemma initialized_by_other:
  assumes "\<not> is_InitOk a" and "a \<noteq> CloseOk"
  shows "initialized_by (as @ [a]) = initialized_by as"
proof
  assume "initialized_by (as @ [a])"
  then obtain i where i: "i < Suc (length as)" "is_InitOk ((as @ [a]) ! i)"
    and later: "\<forall>j \<in> {..<Suc (length as)}. i < j \<longrightarrow> (as @ [a]) ! j \<noteq> CloseOk"
    unfolding initialized_by_def by auto
  have "i \<noteq> length as" using i(2) assms(1) by (auto simp: nth_append)
  with i(1) have il: "i < length as" by simp
  then have "is_InitOk (as ! i)" using i(2) by (simp add: nth_append)
  moreover have "\<forall>j \<in> {..<length as}. i < j \<longrightarrow> as ! j \<noteq> CloseOk"
  proof (intro ballI impI)
    fix j assume j: "j \<in> {..<length as}" "i < j"
    then have "(as @ [a]) ! j \<noteq> CloseOk" using later by simp
    then show "as ! j \<noteq> CloseOk" using j(1) by (simp add: nth_append)
  qed
  ultimately show "initialized_by as"
    unfolding initialized_by_def using il by blast
next
  assume "initialized_by as"
  then obtain i where il: "i < length as" and ok: "is_InitOk (as ! i)"
    and later: "\<forall>j \<in> {..<length as}. i < j \<longrightarrow> as ! j \<noteq> CloseOk"
    unfolding initialized_by_def by auto
  have "is_InitOk ((as @ [a]) ! i)" using il ok by (simp add: nth_append)
  moreover have "\<forall>j \<in> {..<length (as @ [a])}. i < j \<longrightarrow> (as @ [a]) ! j \<noteq> CloseOk"
  proof (intro ballI impI)
    fix j assume j: "j \<in> {..<length (as @ [a])}" "i < j"
    show "(as @ [a]) ! j \<noteq> CloseOk"
    proof (cases "j < length as")
      case True
      then show ?thesis using later j(2) by (simp add: nth_append)
    next
      case False
      then have "j = length as" using j(1) by simp
      then show ?thesis using assms(2) by simp
    qed
  qed
  moreover have "i \<in> {..<length (as @ [a])}" using il by simp
  ultimately show "initialized_by (as @ [a])"
    unfolding initialized_by_def by blast
qed

text \<open>What one call does to the variable \<open>dbInstance\<close>, by its answer.\<close>

lemma step_cases:
  "step net c st = (a, st') \<Longrightarrow>
     (is_InitOk a \<and> dbInstance st' \<noteq> None)
   \<or> (a = CloseOk \<and> dbInstance st' = None)
   \<or> (\<not> is_InitOk a \<and> a \<noteq> CloseOk \<and> dbInstance st' = dbInstance st)"
  by (cases c)
     (auto simp: step_def initSurrealDB_def getDb_def getSurrealDB_def closeSurrealDB_def Let_def
           split: option.splits attempt.splits sum.splits prod.splits if_splits)

lemma run_invariant:
  "run net cs initial_state = (as, st) \<Longrightarrow> (dbInstance st \<noteq> None) = initialized_by as"
proof (induction cs arbitrary: as st rule: rev_induct)
  case Nil
  then show ?case by (auto simp: initial_state_def initialized_by_Nil)
next
  case (snoc c cs)
  obtain as1 st1 where r1: "run net cs initial_state = (as1, st1)"
    by (cases "run net cs initial_state")
  obtain a st2 where s: "step net c st1 = (a, st2)"
    by (cases "step net c st1")
  from snoc.prems r1 s have eq: "as = as1 @ [a]" "st = st2"
    by (simp_all add: run_snoc)
  from snoc.IH [OF r1] have ih: "(dbInstance st1 \<noteq> None) = initialized_by as1" .
  from step_cases [OF s] show ?case
    using ih eq initialized_by_InitOk [of a as1] initialized_by_CloseOk [of as1]
      initialized_by_other [of a as1]
    by auto
qed

text \<open>
  C7. After any sequence of calls of \<open>init\<close>, \<open>get\<close> and \<open>close\<close> from the initial state,
  with any behaviour of the network: \<open>get\<close> fails with NotInitialized exactly when no
  \<open>init\<close> has succeeded without a later successful \<open>close\<close> (so when \<open>init\<close> was never
  called, when it failed, and when \<open>close\<close> has reset the state since); once \<open>init\<close> has
  succeeded, a further \<open>init\<close> returns the existing handle and leaves the whole state as it
  is, the count of connection attempts included; a \<open>close\<close> whose handle closes leaves the
  state uninitialised; and \<open>close\<close> on an uninitialised state returns without any effect.
\<close>

theorem connection_manager_contract:
  assumes "run net cs initial_state = (as, st)"
  shows "((getSurrealDB st = Inl NotInitialized) = (\<not> initialized_by as))
       \<and> (initialized_by as \<longrightarrow>
            (\<exists>h. getSurrealDB st = Inr h \<and> initSurrealDB net st = (Inr h, st)))
       \<and> (\<forall>h. getSurrealDB st = Inr h \<and> closing net h = None \<longrightarrow>
            fst (closeSurrealDB net st) = Inr ()
            \<and> getSurrealDB (snd (closeSurrealDB net st)) = Inl NotInitialized)
       \<and> (\<not> initialized_by as \<longrightarrow> closeSurrealDB net st = (Inr (), st))"
proof -
  from run_invariant [OF assms] have inv: "(dbInstance st \<noteq> None) = initialized_by as" .
  show ?thesis
  proof (cases "dbInstance st")
    case None
    with inv have "\<not> initialized_by as" by simp
    with None show ?thesis
      by (simp add: getSurrealDB_def closeSurrealDB_def)
  next
    case (Some h)
    with inv have "initialized_by as" by simp
    with Some show ?thesis
      by (simp add: getSurrealDB_def closeSurrealDB_def initSurrealDB_def)
  qed
qed

theorem connection_manager_contract_witness:
  "run flaky_network [CallGet, CallInit, CallInit, CallClose, CallClose, CallInit, CallInit] initial_state
     = ([GetFailed NotInitialized, InitFailed (Rejected (JStr ''refused'')), InitOk 1, CloseOk, CloseOk,
         InitOk 2, InitOk 2],
        \<lparr>dbInstance = Some 2, attempts = 3, closed = [1],
         messages = [LogConnectFailed (Rejected (JStr ''refused'')), LogInitFailed (Rejected (JStr ''refused''))]\<rparr>)
   \<and> initialized_by [GetFailed NotInitialized, InitFailed (Rejected (JStr ''refused'')), InitOk (1::nat),
         CloseOk, CloseOk, InitOk 2, InitOk 2]
   \<and> fst (initSurrealDB flaky_network
        \<lparr>dbInstance = Some 2, attempts = 3, closed = [1],
         messages = [LogConnectFailed (Rejected (JStr ''refused'')), LogInitFailed (Rejected (JStr ''refused''))]\<rparr>)
       = Inr 2"
proof -
  have r: "run flaky_network [CallGet, CallInit, CallInit, CallClose, CallClose, CallInit, CallInit] initial_state
     = ([GetFailed NotInitialized, InitFailed (Rejected (JStr ''refused'')), InitOk 1, CloseOk, CloseOk,
         InitOk 2, InitOk 2],
        \<lparr>dbInstance = Some 2, attempts = 3, closed = [1],
         messages = [LogConnectFailed (Rejected (JStr ''refused'')), LogInitFailed (Rejected (JStr ''refused''))]\<rparr>)"
    by (simp add: flaky_network_def initial_state_def step_def initSurrealDB_def getDb_def
        getSurrealDB_def closeSurrealDB_def Let_def)
  from connection_manager_contract [OF r] show ?thesis
    using r by (auto simp: getSurrealDB_def)
qed

section \<open>findById\<close>

lemma findById_never_raises: "\<exists>v w'. findById this ident w = (Inr v, w')"
  by (auto simp: findById_def catch_return_def await_def send_def Let_def
           split: prod.splits sum.splits)

lemma findById_utils_never_raises: "\<exists>v w'. findById_utils this ident w = (Inr v, w')"
  by (auto simp: findById_utils_def catch_return_def await_def send_def Let_def
           split: prod.splits sum.splits)







lemma findById_missing:
  "truthy ident \<Longrightarrow>
   client_query (db this) (''SELECT * FROM '' @ recordId_of (table this) (js_String ident)) (store w)
     = (Inr answer, s') \<Longrightarrow>
   answer = [] \<or> answer = [JArr []] \<or> answer = [JObj [(''result'', JArr [])]] \<Longrightarrow>
   fst (findById this ident w) = Inr JNull"
  by (auto simp: findById_def catch_return_def await_def send_def Let_def console_error_def
        or_empty_def split: prod.splits sum.splits)






section \<open>delete and deleteMany\<close>

lemma delete_outcome:
  "fst (delete this ident w) =
     Inr (truthy ident \<and>
          resolved (client_query (db this) (''DELETE '' @ recordId_of (table this) (js_String ident)) (store w)))"
  by (cases "client_query (db this) (''DELETE '' @ recordId_of (table this) (js_String ident)) (store w)")
     (auto simp: delete_def catch_return_def await_def send_def Let_def split: prod.splits sum.splits)

lemma delete_utils_outcome:
  "fst (delete_utils this ident w) =
     Inr (truthy ident \<and>
          resolved (client_delete (db this) (recordId_of (table this) (js_String ident)) (store w)))"
  by (cases "client_delete (db this) (recordId_of (table this) (js_String ident)) (store w)")
     (auto simp: delete_utils_def catch_return_def await_def send_def Let_def split: prod.splits sum.splits)

lemma delete_logs_failure:
  "fst (delete this ident w) = Inr False \<Longrightarrow>
   \<exists>line. console (snd (delete this ident w)) = console w @ [line]"
  by (auto simp: delete_def catch_return_def await_def send_def Let_def console_error_def
           split: prod.splits sum.splits if_splits)

lemma delete_utils_logs_failure:
  "fst (delete_utils this ident w) = Inr False \<Longrightarrow>
   \<exists>line. console (snd (delete_utils this ident w)) = console w @ [line]"
  by (auto simp: delete_utils_def catch_return_def await_def send_def Let_def console_error_def
           split: prod.splits sum.splits if_splits)

text \<open>
  C5, as the code has it. In both copies of the service \<open>delete\<close> never raises: its
  result is the boolean "the id is not empty and the store resolved the call". It is false
  for an empty id and for a rejected call, and then one line is written to the console; it
  is true whenever the store resolves the call, whether or not the record exists. So a
  second \<open>delete\<close> of the same id returns false only when the store rejects it. After a
  delete, \<open>findById\<close> returns absent when the store's answer holds no record.
\<close>

theorem delete_contract:
  "fst (delete this ident w) =
     Inr (truthy ident \<and>
          resolved (client_query (db this) (''DELETE '' @ recordId_of (table this) (js_String ident)) (store w)))
   \<and> fst (delete_utils this ident w) =
     Inr (truthy ident \<and>
          resolved (client_delete (db this) (recordId_of (table this) (js_String ident)) (store w)))
   \<and> (fst (delete this ident w) = Inr False \<longrightarrow>
        (\<exists>line. console (snd (delete this ident w)) = console w @ [line]))
   \<and> (fst (delete_utils this ident w) = Inr False \<longrightarrow>
        (\<exists>line. console (snd (delete_utils this ident w)) = console w @ [line]))
   \<and> (\<forall>answer s'. truthy ident \<and>
          client_query (db this) (''SELECT * FROM '' @ recordId_of (table this) (js_String ident)) (store w)
            = (Inr answer, s') \<and>
          (answer = [] \<or> answer = [JArr []] \<or> answer = [JObj [(''result'', JArr [])]]) \<longrightarrow>
          fst (findById this ident w) = Inr JNull)"
  using delete_outcome [of this ident w] delete_utils_outcome [of this ident w]
    delete_logs_failure [of this ident w] delete_utils_logs_failure [of this ident w]
    findById_missing [of ident this w]
  by blast

theorem delete_contract_witness:
  "fst (delete user_service (JStr ''user:1'') one_user) = Inr True
   \<and> fst (delete offline_service (JStr ''user:1'') quiet) = Inr False
   \<and> fst (delete user_service (JStr []) one_user) = Inr False
   \<and> fst (delete_utils user_service (JStr ''user:1'') one_user) = Inr True
   \<and> (\<exists>line. console (snd (delete offline_service (JStr ''user:1'') quiet)) = console quiet @ [line])"
  using delete_contract [of user_service "JStr ''user:1''" one_user]
    delete_contract [of offline_service "JStr ''user:1''" quiet]
    delete_contract [of user_service "JStr []" one_user]
  by (simp add: user_service_def one_user_def offline_service_def quiet_def memory_client_def
        offline_client_def recordId_of_def str_includes_def)

text \<open>
  The claim as stated fails: on a store that resolves a DELETE of a missing record, the
  first delete succeeds, \<open>findById\<close> then returns absent, and the second delete returns
  true, not false.
\<close>

theorem second_delete_counterexample:
  "fst (delete user_service (JStr ''user:1'') one_user) = Inr True
   \<and> fst (findById user_service (JStr ''user:1'') (snd (delete user_service (JStr ''user:1'') one_user)))
       = Inr JNull
   \<and> fst (delete user_service (JStr ''user:1'') (snd (delete user_service (JStr ''user:1'') one_user)))
       = Inr True
   \<and> fst (delete_utils user_service (JStr ''user:1'')
        (snd (delete_utils user_service (JStr ''user:1'') one_user))) = Inr True"
  by (simp add: delete_def delete_utils_def findById_def user_service_def one_user_def
        memory_client_def recordId_of_def str_includes_def catch_return_def await_def send_def
        Let_def or_empty_def)

lemma Promise_all_delete:
  "\<exists>bs. fst (Promise_all (map (\<lambda>ident. delete this ident) ids) w) = Inr bs"
proof (induction ids arbitrary: w)
  case Nil
  show ?case by simp
next
  case (Cons ident ids)
  obtain r w1 where d: "delete this ident w = (r, w1)"
    by (cases "delete this ident w")
  from delete_outcome [of this ident w] d obtain b where r: "r = Inr b"
    by auto
  from Cons.IH [of w1] obtain bs where
    "fst (Promise_all (map (\<lambda>ident. delete this ident) ids) w1) = Inr bs" ..
  with d r show ?case
    by (auto split: prod.splits)
qed

text \<open>
  C9. For every list of ids, on every store, \<open>deleteMany\<close> returns true, and its catch
  branch does not run: what it leaves behind is what the per-id deletes left. The result
  does not show whether any of them failed.
\<close>

theorem deleteMany_true:
  "deleteMany this ids w = (Inr True, snd (Promise_all (map (\<lambda>ident. delete this ident) ids) w))"
proof -
  from Promise_all_delete [of this ids w] obtain bs where
    "fst (Promise_all (map (\<lambda>ident. delete this ident) ids) w) = Inr bs" ..
  then show ?thesis
    by (cases "Promise_all (map (\<lambda>ident. delete this ident) ids) w")
       (simp add: deleteMany_def catch_return_def await_def)
qed

theorem deleteMany_true_witness:
  "fst (deleteMany offline_service [JStr ''a'', JStr [], JStr ''user:b''] quiet) = Inr True
   \<and> fst (Promise_all (map (\<lambda>ident. delete offline_service ident) [JStr ''a'', JStr [], JStr ''user:b'']) quiet)
       = Inr [False, False, False]"
  using deleteMany_true [of offline_service "[JStr ''a'', JStr [], JStr ''user:b'']" quiet]
  by (simp add: delete_def offline_service_def offline_client_def quiet_def recordId_of_def
        str_includes_def catch_return_def await_def send_def Let_def console_error_def)

section \<open>findBy\<close>










section \<open>paginate\<close>























section \<open>upsert\<close>

lemma add_outcome:
  "client_create (db this) (table this) d (store w) = (r, s') \<Longrightarrow>
   fst (add this d w) =
     (case r of
        Inl e \<Rightarrow> Inl e
      | Inr created \<Rightarrow>
          (let x = first_elem (case created of JArr xs \<Rightarrow> xs | v \<Rightarrow> [v])
           in if truthy x then Inr (formatRecord x) else Inl CreateNoResult))
   \<and> requests (snd (add this d w)) = requests w @ [Create (table this) d]"
  by (auto simp: add_def catch_rethrow_def await_def send_def Let_def console_error_def
           split: sum.splits)

lemma create_utils_outcome:
  "client_create (db this) (table this) d (store w) = (r, s') \<Longrightarrow>
   fst (create_utils this d w) =
     (case r of
        Inl e \<Rightarrow> Inl e
      | Inr created \<Rightarrow>
          (let x = first_elem (case created of JArr xs \<Rightarrow> xs | v \<Rightarrow> [v])
           in if truthy x then Inr x else Inl CreateNoResult))
   \<and> requests (snd (create_utils this d w)) = requests w @ [Create (table this) d]"
  by (auto simp: create_utils_def catch_rethrow_def await_def send_def Let_def console_error_def
           split: sum.splits)

lemma catch_rethrow_fst: "fst (catch_rethrow msg r) = fst r"
  by (cases r) (auto simp: catch_rethrow_def split: sum.splits)

lemma catch_rethrow_requests: "requests (snd (catch_rethrow msg r)) = requests (snd r)"
  by (cases r) (auto simp: catch_rethrow_def console_error_def split: sum.splits)

lemma upsert_found:
  "findById this ident w = (Inr existing, w1) \<Longrightarrow> truthy existing \<Longrightarrow>
   fst (upsert this ident d w) = fst (update this ident d w1) \<and>
   requests (snd (upsert this ident d w)) = requests (snd (update this ident d w1))"
  by (simp add: upsert_def await_def catch_rethrow_fst catch_rethrow_requests)

lemma upsert_absent:
  "findById this ident w = (Inr existing, w1) \<Longrightarrow> \<not> truthy existing \<Longrightarrow>
   fst (upsert this ident d w) = fst (add this (JObj d) w1) \<and>
   requests (snd (upsert this ident d w)) = requests w1 @ [Create (table this) (JObj d)]"
  using add_outcome [of this "JObj d" w1]
  by (cases "client_create (db this) (table this) (JObj d) (store w1)")
     (simp add: upsert_def await_def catch_rethrow_fst catch_rethrow_requests)

lemma upsert_utils_found:
  "findById_utils this ident w = (Inr existing, w1) \<Longrightarrow> truthy existing \<Longrightarrow>
   fst (upsert_utils this ident d w) = fst (update_utils this ident d w1) \<and>
   requests (snd (upsert_utils this ident d w)) = requests (snd (update_utils this ident d w1))"
  by (simp add: upsert_utils_def await_def catch_rethrow_fst catch_rethrow_requests)

lemma upsert_utils_absent:
  "findById_utils this ident w = (Inr existing, w1) \<Longrightarrow> \<not> truthy existing \<Longrightarrow>
   fst (upsert_utils this ident d w) = fst (create_utils this (JObj d) w1) \<and>
   requests (snd (upsert_utils this ident d w)) = requests w1 @ [Create (table this) (JObj d)]"
  using create_utils_outcome [of this "JObj d" w1]
  by (cases "client_create (db this) (table this) (JObj d) (store w1)")
     (simp add: upsert_utils_def await_def catch_rethrow_fst catch_rethrow_requests)

text \<open>
  C4. In both copies of the service \<open>upsert\<close> first calls \<open>findById\<close>, which always
  answers. When it answers with a record, the result of \<open>upsert\<close> is that of
  \<open>update(id, payload)\<close>. Otherwise it is that of creating a record from a copy of the
  payload: the one request sent is \<open>create(table, payload)\<close>, in which the id argument
  does not appear, and the record returned is the one the store created, with the
  identifier the store gave it.
\<close>

theorem upsert_contract:
  "(\<exists>existing w1. findById this ident w = (Inr existing, w1) \<and>
      (truthy existing \<longrightarrow>
         fst (upsert this ident d w) = fst (update this ident d w1) \<and>
         requests (snd (upsert this ident d w)) = requests (snd (update this ident d w1))) \<and>
      (\<not> truthy existing \<longrightarrow>
         fst (upsert this ident d w) = fst (add this (JObj d) w1) \<and>
         requests (snd (upsert this ident d w)) = requests w1 @ [Create (table this) (JObj d)] \<and>
         fst (add this (JObj d) w1) =
           (case fst (client_create (db this) (table this) (JObj d) (store w1)) of
              Inl e \<Rightarrow> Inl e
            | Inr created \<Rightarrow>
                (let x = first_elem (case created of JArr xs \<Rightarrow> xs | v \<Rightarrow> [v])
                 in if truthy x then Inr (formatRecord x) else Inl CreateNoResult))))
   \<and> (\<exists>existing w1. findById_utils this ident w = (Inr existing, w1) \<and>
      (truthy existing \<longrightarrow>
         fst (upsert_utils this ident d w) = fst (update_utils this ident d w1) \<and>
         requests (snd (upsert_utils this ident d w)) = requests (snd (update_utils this ident d w1))) \<and>
      (\<not> truthy existing \<longrightarrow>
         fst (upsert_utils this ident d w) = fst (create_utils this (JObj d) w1) \<and>
         requests (snd (upsert_utils this ident d w)) = requests w1 @ [Create (table this) (JObj d)] \<and>
         fst (create_utils this (JObj d) w1) =
           (case fst (client_create (db this) (table this) (JObj d) (store w1)) of
              Inl e \<Rightarrow> Inl e
            | Inr created \<Rightarrow>
                (let x = first_elem (case created of JArr xs \<Rightarrow> xs | v \<Rightarrow> [v])
                 in if truthy x then Inr x else Inl CreateNoResult))))"
proof (rule conjI)
  from findById_never_raises [of this ident w] obtain existing w1 where
    f: "findById this ident w = (Inr existing, w1)" by blast
  obtain r s' where c: "client_create (db this) (table this) (JObj d) (store w1) = (r, s')"
    by (cases "client_create (db this) (table this) (JObj d) (store w1)")
  from add_outcome [OF c] c have a: "fst (add this (JObj d) w1) =
      (case fst (client_create (db this) (table this) (JObj d) (store w1)) of
         Inl e \<Rightarrow> Inl e
       | Inr created \<Rightarrow>
           (let x = first_elem (case created of JArr xs \<Rightarrow> xs | v \<Rightarrow> [v])
            in if truthy x then Inr (formatRecord x) else Inl CreateNoResult))"
    by simp
  show "\<exists>existing w1. findById this ident w = (Inr existing, w1) \<and>
      (truthy existing \<longrightarrow>
         fst (upsert this ident d w) = fst (update this ident d w1) \<and>
         requests (snd (upsert this ident d w)) = requests (snd (update this ident d w1))) \<and>
      (\<not> truthy existing \<longrightarrow>
         fst (upsert this ident d w) = fst (add this (JObj d) w1) \<and>
         requests (snd (upsert this ident d w)) = requests w1 @ [Create (table this) (JObj d)] \<and>
         fst (add this (JObj d) w1) =
           (case fst (client_create (db this) (table this) (JObj d) (store w1)) of
              Inl e \<Rightarrow> Inl e
            | Inr created \<Rightarrow>
                (let x = first_elem (case created of JArr xs \<Rightarrow> xs | v \<Rightarrow> [v])
                 in if truthy x then Inr (formatRecord x) else Inl CreateNoResult)))"
    using f a upsert_found [OF f, of d] upsert_absent [OF f, of d]
    by (intro exI [of _ existing] exI [of _ w1]) blast
next
  from findById_utils_never_raises [of this ident w] obtain existing w1 where
    f: "findById_utils this ident w = (Inr existing, w1)" by blast
  obtain r s' where c: "client_create (db this) (table this) (JObj d) (store w1) = (r, s')"
    by (cases "client_create (db this) (table this) (JObj d) (store w1)")
  from create_utils_outcome [OF c] c have a: "fst (create_utils this (JObj d) w1) =
      (case fst (client_create (db this) (table this) (JObj d) (store w1)) of
         Inl e \<Rightarrow> Inl e
       | Inr created \<Rightarrow>
           (let x = first_elem (case created of JArr xs \<Rightarrow> xs | v \<Rightarrow> [v])
            in if truthy x then Inr x else Inl CreateNoResult))"
    by simp
  show "\<exists>existing w1. findById_utils this ident w = (Inr existing, w1) \<and>
      (truthy existing \<longrightarrow>
         fst (upsert_utils this ident d w) = fst (update_utils this ident d w1) \<and>
         requests (snd (upsert_utils this ident d w)) = requests (snd (update_utils this ident d w1))) \<and>
      (\<not> truthy existing \<longrightarrow>
         fst (upsert_utils this ident d w) = fst (create_utils this (JObj d) w1) \<and>
         requests (snd (upsert_utils this ident d w)) = requests w1 @ [Create (table this) (JObj d)] \<and>
         fst (create_utils this (JObj d) w1) =
           (case fst (client_create (db this) (table this) (JObj d) (store w1)) of
              Inl e \<Rightarrow> Inl e
            | Inr created \<Rightarrow>
                (let x = first_elem (case created of JArr xs \<Rightarrow> xs | v \<Rightarrow> [v])
                 in if truthy x then Inr x else Inl CreateNoResult)))"
    using f a upsert_utils_found [OF f, of d] upsert_utils_absent [OF f, of d]
    by (intro exI [of _ existing] exI [of _ w1]) blast
qed

lemma findById_unknown_user:
  "findById user_service (JStr ''user:zhao'') one_user =
     (Inr JNull, one_user\<lparr>requests := [Query ''SELECT * FROM user:zhao'']\<rparr>)"
  by (simp add: findById_def user_service_def one_user_def memory_client_def recordId_of_def
        str_includes_def catch_return_def await_def send_def Let_def)

lemma add_after_lookup:
  "fst (add user_service (JObj [(''name'', JStr ''Zhao'')])
         (one_user\<lparr>requests := [Query ''SELECT * FROM user:zhao'']\<rparr>)) =
     Inr (JObj [(''name'', JStr ''Zhao''), (''id'', JStr ''user:2'')])"
  by (simp add: add_def user_service_def one_user_def memory_client_def catch_rethrow_def
        await_def send_def Let_def formatRecord_def string_of_nat.simps [of 2] digit_char_def)

lemma upsert_unknown_user:
  "fst (upsert user_service (JStr ''user:zhao'') [(''name'', JStr ''Zhao'')] one_user) =
     Inr (JObj [(''name'', JStr ''Zhao''), (''id'', JStr ''user:2'')])"
  by (simp add: upsert_def findById_unknown_user await_def catch_rethrow_fst add_after_lookup)

theorem upsert_contract_witness:
  "fst (upsert user_service (JStr ''user:zhao'') [(''name'', JStr ''Zhao'')] one_user) =
     Inr (JObj [(''name'', JStr ''Zhao''), (''id'', JStr ''user:2'')])
   \<and> requests (snd (upsert user_service (JStr ''user:zhao'') [(''name'', JStr ''Zhao'')] one_user)) =
       [Query ''SELECT * FROM user:zhao'', Create ''user'' (JObj [(''name'', JStr ''Zhao'')])]"
proof -
  from upsert_contract [of user_service "JStr ''user:zhao''" one_user "[(''name'', JStr ''Zhao'')]",
      THEN conjunct1]
  obtain existing w1 where
    f: "findById user_service (JStr ''user:zhao'') one_user = (Inr existing, w1)" and
    absent: "\<not> truthy existing \<longrightarrow>
       requests (snd (upsert user_service (JStr ''user:zhao'') [(''name'', JStr ''Zhao'')] one_user)) =
         requests w1 @ [Create (table user_service) (JObj [(''name'', JStr ''Zhao'')])]"
    by blast
  from f have e: "existing = JNull" and w: "w1 = one_user\<lparr>requests := [Query ''SELECT * FROM user:zhao'']\<rparr>"
    by (simp_all add: findById_unknown_user)
  have t: "table user_service = ''user''"
    by (simp add: user_service_def)
  from absent e w t
  have "requests (snd (upsert user_service (JStr ''user:zhao'') [(''name'', JStr ''Zhao'')] one_user)) =
       [Query ''SELECT * FROM user:zhao'', Create ''user'' (JObj [(''name'', JStr ''Zhao'')])]"
    by simp
  with upsert_unknown_user show ?thesis by simp
qed

section \<open>formatRecord and the records the service returns\<close>

lemma map_of_put_prop: "map_of (put_prop kvs k v) k' = (if k' = k then Some v else map_of kvs k')"
  by (induction kvs) auto
















section \<open>BaseModel.update and toJSON\<close>

text \<open>A key is kept by \<open>toJSON\<close> when the filter of the \<open>forEach\<close> callback lets it pass.\<close>

lemma toJSON_step_lookup:
  "map_of (toJSON_step this key acc) k =
     (if k = key \<and> (k = ''id'' \<or> \<not> startsWith k CHR ''_'') \<and> \<not> is_function this k
      then Some (self_value this k) else map_of acc k)"
  by (auto simp: toJSON_step_def map_of_put_prop)

lemma toJSON_fold:
  "map_of (fold (toJSON_step this) ks acc) k =
     (if k \<in> set ks \<and> (k = ''id'' \<or> \<not> startsWith k CHR ''_'') \<and> \<not> is_function this k
      then Some (self_value this k) else map_of acc k)"
proof (induction ks arbitrary: acc)
  case Nil
  show ?case by simp
next
  case (Cons key ks)
  have "map_of (fold (toJSON_step this) (key # ks) acc) k =
        map_of (fold (toJSON_step this) ks (toJSON_step this key acc)) k"
    by simp
  also have "\<dots> =
     (if k \<in> set ks \<and> (k = ''id'' \<or> \<not> startsWith k CHR ''_'') \<and> \<not> is_function this k
      then Some (self_value this k) else map_of (toJSON_step this key acc) k)"
    by (rule Cons.IH)
  finally show ?case
    by (auto simp: toJSON_step_lookup)
qed

lemma toJSON_keys:
  "map_of (toJSON this) k =
     (if k \<in> set (Object_keys this) \<and> (k = ''id'' \<or> \<not> startsWith k CHR ''_'') \<and> \<not> is_function this k
      then Some (self_value this k) else None)"
  unfolding toJSON_def toJSON_fold by simp

lemma toJSON_lookup:
  "map_of (toJSON this) k =
     (if startsWith k CHR ''_'' then None
      else (case map_of (own_props this) k of Some (Data v) \<Rightarrow> Some v | _ \<Rightarrow> None))"
proof (cases "startsWith k CHR ''_''")
  case True
  then have "k \<noteq> ''id''" by auto
  with True show ?thesis
    by (simp add: toJSON_keys)
next
  case False
  then have ns: "k \<noteq> ''_service''" by auto
  show ?thesis
  proof (cases "map_of (own_props this) k")
    case None
    then have "k \<notin> set (map fst (own_props this))"
      by (simp add: map_of_eq_None_iff)
    with None False ns show ?thesis
      by (simp add: toJSON_keys Object_keys_def)
  next
    case (Some fv)
    then have "k \<in> set (map fst (own_props this))"
      by (metis domI dom_map_of_conv_image_fst set_map)
    with Some False show ?thesis
      by (cases fv) (simp_all add: toJSON_keys Object_keys_def is_function_def self_value_def)
  qed
qed

lemma service_keeps_id: "service st this = (r, this1) \<Longrightarrow> this_id this1 = this_id this"
  by (auto simp: service_def this_id_def self_value_def split: sum.splits if_splits)

lemma BaseModel_update_without_id:
  "\<not> truthy (this_id this) \<Longrightarrow> BaseModel_update st this w = (Inl NoIdToUpdate, this, w)"
  by (simp add: BaseModel_update_def)

lemma BaseModel_update_with_id:
  assumes "truthy (this_id this)" and "service st this = (Inr (Inr svc), this1)"
  shows "snd (snd (BaseModel_update st this w)) = snd (update svc (this_id this) (toJSON this) w)
       \<and> (\<forall>e. fst (update svc (this_id this) (toJSON this) w) = Inl e \<longrightarrow>
              fst (BaseModel_update st this w) = Inl e)
       \<and> (\<forall>result. fst (update svc (this_id this) (toJSON this) w) = Inr result \<longrightarrow>
              fst (BaseModel_update st this w) = fst (Object_assign this1 result)
              \<and> fst (snd (BaseModel_update st this w)) = snd (Object_assign this1 result))"
proof -
  from service_keeps_id [OF assms(2)] have i: "this_id this1 = this_id this" .
  obtain r w1 where u: "update svc (this_id this) (toJSON this) w = (r, w1)"
    by (cases "update svc (this_id this) (toJSON this) w")
  show ?thesis
  proof (cases r)
    case (Inl e)
    with assms u i show ?thesis
      by (simp add: BaseModel_update_def Let_def)
  next
    case (Inr result)
    obtain a this2 where oa: "Object_assign this1 result = (a, this2)"
      by (cases "Object_assign this1 result")
    with Inr assms u i show ?thesis
      by (cases a) (simp_all add: BaseModel_update_def Let_def)
  qed
qed

text \<open>
  C8. When the instance's \<open>id\<close> is unset (undefined, or otherwise falsy), \<open>update\<close> fails
  with the no-id error and nothing else happens: the instance is as before (no service has
  been constructed) and no request has been sent. When the \<open>id\<close> is set and the getter
  \<open>service\<close> yields a service, \<open>update\<close> calls the service's \<open>update\<close> with that id and
  with \<open>toJSON()\<close>: a failure there is the failure of \<open>update\<close>, and a record returned is
  merged into the instance. \<open>toJSON()\<close> holds exactly the own properties whose key does
  not start with an underscore and whose value is not a function, with their values.
\<close>

theorem BaseModel_update_contract:
  "(\<not> truthy (this_id this) \<longrightarrow> BaseModel_update st this w = (Inl NoIdToUpdate, this, w))
   \<and> (\<forall>svc this1. truthy (this_id this) \<and> service st this = (Inr (Inr svc), this1) \<longrightarrow>
         snd (snd (BaseModel_update st this w)) = snd (update svc (this_id this) (toJSON this) w)
         \<and> (\<forall>e. fst (update svc (this_id this) (toJSON this) w) = Inl e \<longrightarrow>
                fst (BaseModel_update st this w) = Inl e)
         \<and> (\<forall>result. fst (update svc (this_id this) (toJSON this) w) = Inr result \<longrightarrow>
                fst (BaseModel_update st this w) = fst (Object_assign this1 result)
                \<and> fst (snd (BaseModel_update st this w)) = snd (Object_assign this1 result)))
   \<and> (\<forall>k. map_of (toJSON this) k =
         (if startsWith k CHR ''_'' then None
          else (case map_of (own_props this) k of Some (Data v) \<Rightarrow> Some v | _ \<Rightarrow> None)))"
proof (intro conjI allI impI)
  assume "\<not> truthy (this_id this)"
  then show "BaseModel_update st this w = (Inl NoIdToUpdate, this, w)"
    by (rule BaseModel_update_without_id)
next
  fix svc this1
  assume a: "truthy (this_id this) \<and> service st this = (Inr (Inr svc), this1)"
  from a have t: "truthy (this_id this)" and s: "service st this = (Inr (Inr svc), this1)"
    by simp_all
  note b = BaseModel_update_with_id [OF t s, of w]
  from b show "snd (snd (BaseModel_update st this w)) = snd (update svc (this_id this) (toJSON this) w)"
    by simp
  { fix e assume "fst (update svc (this_id this) (toJSON this) w) = Inl e"
    with b show "fst (BaseModel_update st this w) = Inl e" by simp }
  { fix result assume r: "fst (update svc (this_id this) (toJSON this) w) = Inr result"
    with b show "fst (BaseModel_update st this w) = fst (Object_assign this1 result)" by simp
    from b r show "fst (snd (BaseModel_update st this w)) = snd (Object_assign this1 result)" by simp }
next
  fix k
  show "map_of (toJSON this) k =
         (if startsWith k CHR ''_'' then None
          else (case map_of (own_props this) k of Some (Data v) \<Rightarrow> Some v | _ \<Rightarrow> None))"
    by (rule toJSON_lookup)
qed

lemma toJSON_ann: "toJSON ann = [(''id'', JStr ''user:1''), (''name'', JStr ''Ann'')]"
  by (simp add: toJSON_def ann_def Object_keys_def toJSON_step_def is_function_def self_value_def)

lemma service_ann:
  "service connected ann = (Inr (Inr echo_service), ann\<lparr>service_field := Inr echo_service\<rparr>)"
  by (simp add: service_def ann_def connected_def new_SurrealService_def getSurrealDB_def
        echo_service_def)

lemma update_ann:
  "update echo_service (JStr ''user:1'') [(''id'', JStr ''user:1''), (''name'', JStr ''Ann'')] quiet =
     (Inr (JObj [(''name'', JStr ''Ann'')]),
      quiet\<lparr>requests := [Query (''UPDATE user:1 SET id = '' @ [CHR 0x22] @ ''user:1'' @ [CHR 0x22]
         @ '', name = '' @ [CHR 0x22] @ ''Ann'' @ [CHR 0x22] @ '' RETURN AFTER'')]\<rparr>)"
  by (simp add: update_def echo_service_def echo_client_def quiet_def recordId_of_def
        str_includes_def assignments_def json_quote_def json_escape_def catch_rethrow_def
        await_def send_def Let_def formatRecord_def)

theorem BaseModel_update_contract_witness:
  "BaseModel_update connected unsaved quiet = (Inl NoIdToUpdate, unsaved, quiet)
   \<and> truthy (this_id ann)
   \<and> service connected ann = (Inr (Inr echo_service), ann\<lparr>service_field := Inr echo_service\<rparr>)
   \<and> requests (snd (snd (BaseModel_update connected ann quiet))) =
       [Query (''UPDATE user:1 SET id = '' @ [CHR 0x22] @ ''user:1'' @ [CHR 0x22]
         @ '', name = '' @ [CHR 0x22] @ ''Ann'' @ [CHR 0x22] @ '' RETURN AFTER'')]
   \<and> map_of (toJSON ann) ''name'' = Some (JStr ''Ann'')
   \<and> map_of (toJSON ann) ''_draft'' = None
   \<and> map_of (toJSON ann) ''greet'' = None"
proof -
  have u: "\<not> truthy (this_id unsaved)"
    by (simp add: this_id_def self_value_def unsaved_def)
  have i: "this_id ann = JStr ''user:1''"
    by (simp add: this_id_def self_value_def ann_def)
  note c1 = BaseModel_update_contract [of unsaved connected quiet]
  note c2 = BaseModel_update_contract [of ann connected quiet]
  from c1 u have 1: "BaseModel_update connected unsaved quiet = (Inl NoIdToUpdate, unsaved, quiet)"
    by blast
  from c2 [THEN conjunct2, THEN conjunct1, THEN spec, THEN spec,
      of echo_service "ann\<lparr>service_field := Inr echo_service\<rparr>"] i service_ann
  have 2: "snd (snd (BaseModel_update connected ann quiet)) =
      snd (update echo_service (this_id ann) (toJSON ann) quiet)"
    by simp
  from c2 [THEN conjunct2, THEN conjunct2]
  have 3: "map_of (toJSON ann) ''name'' = Some (JStr ''Ann'')"
    and 4: "map_of (toJSON ann) ''_draft'' = None"
    and 5: "map_of (toJSON ann) ''greet'' = None"
    by (simp_all add: ann_def)
  from 2 have "requests (snd (snd (BaseModel_update connected ann quiet))) =
       [Query (''UPDATE user:1 SET id = '' @ [CHR 0x22] @ ''user:1'' @ [CHR 0x22]
         @ '', name = '' @ [CHR 0x22] @ ''Ann'' @ [CHR 0x22] @ '' RETURN AFTER'')]"
    by (simp add: i toJSON_ann update_ann)
  with 1 3 4 5 i service_ann show ?thesis by simp
qed

end
